theory Spec2Isabelle
  imports Complex_Main "HOL-Library.Word"
begin

section \<open>Focus/rest controller: data model\<close>

text \<open>
  The sketch modelled is the rgb_lcd variant with the red warning state
  (\<^verbatim>\<open>src/unnamed/part_000\<close>). \<^verbatim>\<open>unsigned long\<close> is 32 bits wide on the Arduino
  targets, so every timestamp and duration is a \<open>32 word\<close>: \<open>+\<close> and \<open>-\<close> wrap
  around as in the sketch. \<^verbatim>\<open>int\<close> and \<^verbatim>\<open>long\<close> values are only compared with small
  constants or added within \<open>[-25, 70]\<close>, so they are \<open>int\<close>. The lux reading is a
  finite, non-negative \<^verbatim>\<open>float\<close> that is only compared with integer constants; it is a
  \<open>real\<close>.
\<close>

type_synonym ulong = "32 word"

text \<open>The globals of the sketch, and the on/off value last given to the environment strip.\<close>

record session =
  recommendedFocusTime :: ulong
  dynamicRestTime :: ulong
  focusStartTime :: ulong
  totalFocusTime :: ulong
  restStartTime :: ulong
  absenceStartTime :: ulong
  isPresent :: bool
  breakWarning :: bool
  inRestMode :: bool
  restFinished :: bool
  waitingForUserToLeave :: bool
  lastLcdUpdate :: ulong
  lcdPage :: int
  lastR :: int
  lastG :: int
  lastB :: int
  envLight :: bool

text \<open>
  What one pass of \<^verbatim>\<open>loop()\<close> reads: the three sensor values and the clock. The
  sketch calls \<^verbatim>\<open>millis()\<close> at lines 194, 198, 201, 216, 246, 250, 254, 263, 278, 314
  and 315, each at most once in a pass; \<open>millis i n\<close> is the value the call at line \<open>n\<close>
  returns in the pass that reads the snapshot \<open>i\<close>. Nothing is assumed about how the
  readings of one pass relate to each other.
\<close>

record snapshot =
  distance :: int
  noiseVal :: int
  luxValue :: real
  millis :: "nat \<Rightarrow> ulong"

definition PRESENT_DISTANCE :: int where "PRESENT_DISTANCE = 80"
definition TOO_CLOSE_DISTANCE :: int where "TOO_CLOSE_DISTANCE = 20"
definition MIN_LUX :: int where "MIN_LUX = 80"
definition MAX_NOISE :: int where "MAX_NOISE = 300"

text \<open>The initial values of the globals (nothing has been written to either strip).\<close>

definition init :: session where
  "init = \<lparr> recommendedFocusTime = 45 * 60 * 1000, dynamicRestTime = 15 * 60 * 1000,
            focusStartTime = 0, totalFocusTime = 0, restStartTime = 0, absenceStartTime = 0,
            isPresent = False, breakWarning = False, inRestMode = False,
            restFinished = False, waitingForUserToLeave = False,
            lastLcdUpdate = 0, lcdPage = 0, lastR = -1, lastG = -1, lastB = -1,
            envLight = False \<rparr>"

section \<open>Helpers of the sketch\<close>

text \<open>\<^verbatim>\<open>safeSetStatusColor\<close>: a write only when the colour differs from the last one.\<close>

definition safeSetStatusColor :: "int \<Rightarrow> int \<Rightarrow> int \<Rightarrow> session \<Rightarrow> session" where
  "safeSetStatusColor r g b s =
     (if r = lastR s \<and> g = lastG s \<and> b = lastB s then s
      else s\<lparr>lastR := r, lastG := g, lastB := b\<rparr>)"

text \<open>
  \<^verbatim>\<open>getDistanceCM\<close>: the echo time 0 (the \<^verbatim>\<open>pulseIn\<close> timeout) gives 0; any other
  echo time goes through the floating-point conversion \<^verbatim>\<open>duration * 0.034 / 2\<close>, taken
  here as the parameter \<open>conv\<close>.
\<close>

definition getDistanceCM :: "(int \<Rightarrow> int) \<Rightarrow> int \<Rightarrow> int" where
  "getDistanceCM conv duration = (if duration = 0 then 0 else conv duration)"

definition setEnvironmentLight :: "bool \<Rightarrow> session \<Rightarrow> session" where
  "setEnvironmentLight on s = s\<lparr>envLight := on\<rparr>"

subsection \<open>Duration model\<close>

text \<open>Lines 101 to 115 of \<^verbatim>\<open>calculateRecommendedTime\<close>: \<^verbatim>\<open>baseMin + delta\<close>.\<close>

definition recMinRaw :: "real \<Rightarrow> int \<Rightarrow> int \<Rightarrow> int" where
  "recMinRaw lux noise distanceCM =
     (let baseMin = 45;
          delta = 0;
          delta = (if lux \<ge> 300 then delta + 10
                   else if lux \<ge> 150 then delta + 5
                   else if lux < 80 then delta - 10 else delta);
          delta = (if noise < 200 then delta + 10
                   else if noise < 350 then delta + 5
                   else if noise > 650 then delta - 10 else delta);
          delta = (if distanceCM \<ge> 40 then delta + 5
                   else if distanceCM < 20 \<and> distanceCM > 0 then delta - 5 else delta)
      in baseMin + delta)"

text \<open>Lines 115 to 117: the two clamping assignments to \<^verbatim>\<open>recMin\<close>.\<close>

definition recMin :: "real \<Rightarrow> int \<Rightarrow> int \<Rightarrow> int" where
  "recMin lux noise distanceCM =
     (let r = recMinRaw lux noise distanceCM;
          r = (if r < 25 then 25 else r);
          r = (if r > 60 then 60 else r)
      in r)"

text \<open>Line 119: \<^verbatim>\<open>recommendedFocusTime = recMin * 60000UL\<close>, an \<^verbatim>\<open>unsigned long\<close> product.\<close>

definition calculateRecommendedTime :: "real \<Rightarrow> int \<Rightarrow> int \<Rightarrow> session \<Rightarrow> session" where
  "calculateRecommendedTime lux noise distanceCM s =
     s\<lparr>recommendedFocusTime := word_of_int (recMin lux noise distanceCM) * 60000\<rparr>"

text \<open>
  The second sketch of \<^verbatim>\<open>src/unnamed/part_002\<close> has its own
  \<^verbatim>\<open>calculateRecommendedTime\<close>: smaller bonuses for light and noise, and the floor 20.
\<close>

definition recMinRaw_v20 :: "real \<Rightarrow> int \<Rightarrow> int \<Rightarrow> int" where
  "recMinRaw_v20 lux noise distanceCM =
     (let baseMin = 45;
          delta = 0;
          delta = (if lux \<ge> 300 then delta + 5
                   else if lux \<ge> 150 then delta + 0
                   else if lux < 80 then delta - 10 else delta);
          delta = (if noise < 200 then delta + 5
                   else if noise < 350 then delta + 0
                   else if noise > 650 then delta - 10 else delta);
          delta = (if distanceCM \<ge> 40 then delta + 5
                   else if distanceCM < 20 \<and> distanceCM > 0 then delta - 5 else delta)
      in baseMin + delta)"

definition recMin_v20 :: "real \<Rightarrow> int \<Rightarrow> int \<Rightarrow> int" where
  "recMin_v20 lux noise distanceCM =
     (let r = recMinRaw_v20 lux noise distanceCM;
          r = (if r < 20 then 20 else r);
          r = (if r > 60 then 60 else r)
      in r)"

definition calculateRecommendedTime_v20 :: "real \<Rightarrow> int \<Rightarrow> int \<Rightarrow> session \<Rightarrow> session" where
  "calculateRecommendedTime_v20 lux noise distanceCM s =
     s\<lparr>recommendedFocusTime := word_of_int (recMin_v20 lux noise distanceCM) * 60000\<rparr>"

text \<open>\<^verbatim>\<open>calculateRestTime\<close>.\<close>

definition restMin :: "real \<Rightarrow> int \<Rightarrow> int" where
  "restMin lux noise =
     (let baseMin = 15;
          delta = 0;
          delta = (if lux < 80 then delta + 5 else delta);
          delta = (if noise > 650 then delta + 5 else delta);
          delta = (if lux > 150 \<and> noise < 250 then delta - 5 else delta);
          r = baseMin + delta;
          r = (if r < 5 then 5 else r);
          r = (if r > 25 then 25 else r)
      in r)"

definition calculateRestTime :: "real \<Rightarrow> int \<Rightarrow> session \<Rightarrow> session" where
  "calculateRestTime lux noise s =
     s\<lparr>dynamicRestTime := word_of_int (restMin lux noise) * 60000\<rparr>"

subsection \<open>Classification of the distance reading (lines 173 to 175)\<close>

definition validDistance :: "int \<Rightarrow> bool" where
  "validDistance d = (d > 5 \<and> d < 200)"

definition userNear :: "int \<Rightarrow> bool" where
  "userNear d = (validDistance d \<and> d < PRESENT_DISTANCE)"

definition userTooClose :: "int \<Rightarrow> bool" where
  "userTooClose d = (validDistance d \<and> d < TOO_CLOSE_DISTANCE)"

section \<open>One pass of the main loop\<close>

text \<open>Lines 177 and 178: both recommendations are recomputed on every pass.\<close>

definition recompute :: "session \<Rightarrow> snapshot \<Rightarrow> session" where
  "recompute s i =
     calculateRestTime (luxValue i) (noiseVal i)
       (calculateRecommendedTime (luxValue i) (noiseVal i)
          (if validDistance (distance i) then distance i else 999) s)"

text \<open>Lines 183 to 206: the red warning state; the pass ends here.\<close>

definition warning_pass :: "session \<Rightarrow> snapshot \<Rightarrow> session" where
  "warning_pass s i =
     (let s = safeSetStatusColor 40 0 0 s;
          s = (if userNear (distance i) then s\<lparr>absenceStartTime := millis i 194\<rparr> else s);
          s = (if \<not> userNear (distance i) \<and> millis i 198 - absenceStartTime s \<ge> 2000
               then s\<lparr>waitingForUserToLeave := False, inRestMode := True,
                      restStartTime := millis i 201\<rparr>
               else s)
      in s)"

text \<open>Lines 211 to 238: rest mode; the pass ends here.\<close>

definition rest_pass :: "session \<Rightarrow> snapshot \<Rightarrow> session" where
  "rest_pass s i =
     (let s = safeSetStatusColor 40 0 0 s;
          s = setEnvironmentLight False s;
          restElapsed = millis i 216 - restStartTime s
      in if \<not> userNear (distance i) \<and> restElapsed \<ge> dynamicRestTime s
         then safeSetStatusColor 20 20 0 (s\<lparr>inRestMode := False, restFinished := True\<rparr>)
         else s)"

text \<open>Lines 243 to 252: the presence update.\<close>

definition presence_update :: "session \<Rightarrow> snapshot \<Rightarrow> session" where
  "presence_update s i =
     (let s = (if userNear (distance i) \<and> \<not> isPresent s
               then s\<lparr>isPresent := True, restFinished := False,
                      focusStartTime := millis i 246\<rparr>
               else s);
          s = (if \<not> userNear (distance i) \<and> isPresent s
               then s\<lparr>totalFocusTime := totalFocusTime s + (millis i 250 - focusStartTime s),
                      isPresent := False\<rparr>
               else s)
      in s)"

text \<open>Line 254.\<close>

definition currentFocus :: "session \<Rightarrow> snapshot \<Rightarrow> ulong" where
  "currentFocus s i = (if isPresent s then millis i 254 - focusStartTime s else 0)"

text \<open>Lines 259 to 266: the warning state is entered and the pass ends.\<close>

definition enter_warning :: "session \<Rightarrow> snapshot \<Rightarrow> session" where
  "enter_warning s i =
     safeSetStatusColor 40 0 0
       (s\<lparr>totalFocusTime := totalFocusTime s + currentFocus s i, isPresent := False,
          waitingForUserToLeave := True, absenceStartTime := millis i 263\<rparr>)"

text \<open>Lines 272 to 280: after a rest, waiting for the user to come back.\<close>

definition after_rest :: "session \<Rightarrow> snapshot \<Rightarrow> session" where
  "after_rest s i =
     (if restFinished s
      then (let s = setEnvironmentLight False s;
                s = safeSetStatusColor 20 20 0 s
            in if userNear (distance i)
               then s\<lparr>restFinished := False, focusStartTime := millis i 278\<rparr> else s)
      else s)"

text \<open>Lines 285 to 307: the status colour while the user is present.\<close>

definition status_led :: "session \<Rightarrow> snapshot \<Rightarrow> session" where
  "status_led s i =
     (if isPresent s
      then (if \<not> validDistance (distance i)
            then (if noiseVal i > MAX_NOISE then safeSetStatusColor 40 40 0 s
                  else safeSetStatusColor 0 0 0 s)
            else if userTooClose (distance i) then safeSetStatusColor 0 0 40 s
            else if noiseVal i > MAX_NOISE then safeSetStatusColor 40 40 0 s
            else safeSetStatusColor 0 40 0 s)
      else s)"

text \<open>Lines 314 to 318: the page of the display changes every two seconds.\<close>

definition lcd_rotate :: "session \<Rightarrow> snapshot \<Rightarrow> session" where
  "lcd_rotate s i =
     (if millis i 314 - lastLcdUpdate s > 2000
      then s\<lparr>lastLcdUpdate := millis i 315, lcdPage := (lcdPage s + 1) mod 2\<rparr>
      else s)"

text \<open>Lines 243 to 360: the pass when neither the warning state nor rest mode is active.\<close>

definition focus_pass :: "session \<Rightarrow> snapshot \<Rightarrow> session" where
  "focus_pass s i =
     (let s = presence_update s i
      in if \<not> inRestMode s \<and> isPresent s \<and> currentFocus s i \<ge> recommendedFocusTime s
         then enter_warning s i
         else (let s = after_rest s i;
                   s = status_led s i;
                   s = setEnvironmentLight (luxValue i < real_of_int MIN_LUX) s
               in lcd_rotate s i))"

text \<open>
  \<^verbatim>\<open>loop()\<close>. The text written to the display, its backlight colour and the serial
  output are left out: nothing below depends on them.
\<close>

definition loop :: "session \<Rightarrow> snapshot \<Rightarrow> session" where
  "loop s i =
     (let s = recompute s i
      in if waitingForUserToLeave s then warning_pass s i
         else if inRestMode s then rest_pass s i
         else focus_pass s i)"

text \<open>The passes of a run, one snapshot each.\<close>

fun run :: "session \<Rightarrow> snapshot list \<Rightarrow> session" where
  "run s [] = s"
| "run s (i # is) = run (loop s i) is"

section \<open>Reference definitions and scenarios\<close>

subsection \<open>The recommendation as the specification words it\<close>

text \<open>
  The reference definition of the recommended minutes: the base of 45 minutes, one
  increment for each of light, noise and distance, the sum clamped between the floor
  and 60. The bands of each increment are the ones the specification lists; the four
  bands of light and of noise cover every reading, so the last band is the remaining case.
\<close>

definition clamp_spec :: "int \<Rightarrow> int \<Rightarrow> int \<Rightarrow> int" where
  "clamp_spec x lo hi = (if x < lo then lo else if x > hi then hi else x)"

definition luxDelta_spec :: "real \<Rightarrow> int" where
  "luxDelta_spec lux =
     (if lux \<ge> 300 then 10
      else if 150 \<le> lux \<and> lux < 300 then 5
      else if 80 \<le> lux \<and> lux < 150 then 0
      else - 10)"

definition noiseDelta_spec :: "int \<Rightarrow> int" where
  "noiseDelta_spec noise =
     (if noise < 200 then 10
      else if 200 \<le> noise \<and> noise < 350 then 5
      else if 350 \<le> noise \<and> noise \<le> 650 then 0
      else - 10)"

definition distanceDelta_spec :: "int \<Rightarrow> int" where
  "distanceDelta_spec d = (if d \<ge> 40 then 5 else if 0 < d \<and> d < 20 then - 5 else 0)"

definition recommended_minutes_spec :: "int \<Rightarrow> real \<Rightarrow> int \<Rightarrow> int \<Rightarrow> int" where
  "recommended_minutes_spec floor_min lux noise d =
     clamp_spec (45 + luxDelta_spec lux + noiseDelta_spec noise + distanceDelta_spec d)
       floor_min 60"

subsection \<open>Predicates on states and runs\<close>

text \<open>
  In every state the sketch reaches, the warning state and rest mode exclude an open
  focus segment.
\<close>

definition session_inv :: "session \<Rightarrow> bool" where
  "session_inv s = (\<not> ((waitingForUserToLeave s \<or> inRestMode s) \<and> isPresent s))"

text \<open>In every state the sketch reaches, the wait after a rest excludes an open focus segment.\<close>

definition finished_inv :: "session \<Rightarrow> bool" where
  "finished_inv s = (\<not> (restFinished s \<and> isPresent s))"

text \<open>
  \<open>debounce_open t0 is\<close>: along the snapshots \<open>is\<close>, no pass sees the user away at
  2000 ms or more after the last reset of the absence timer, which starts at \<open>t0\<close> and is
  set again (to the reading of line 194) by every pass that sees the user near; the
  absent passes read the clock at line 198.
\<close>

fun debounce_open :: "ulong \<Rightarrow> snapshot list \<Rightarrow> bool" where
  "debounce_open t0 [] = True"
| "debounce_open t0 (i # is) =
     (if userNear (distance i) then debounce_open (millis i 194) is
      else (millis i 198 - t0 < 2000 \<and> debounce_open t0 is))"

subsection \<open>Snapshots and states of the scenarios\<close>

text \<open>
  In the scenarios every call of \<^verbatim>\<open>millis()\<close> in a pass returns the same time \<open>t\<close>.
  A user at 30 cm in a room of 100 lux and a noise reading of 400: the recommendation is
  the base of 45 minutes, the rest 15 minutes.
\<close>

definition seated :: "ulong \<Rightarrow> snapshot" where
  "seated t = \<lparr>distance = 30, noiseVal = 400, luxValue = 100, millis = (\<lambda>_. t)\<rparr>"

text \<open>The same room with nobody in range: the echo times out and the distance is 0.\<close>

definition away :: "ulong \<Rightarrow> snapshot" where
  "away t = \<lparr>distance = 0, noiseVal = 400, luxValue = 100, millis = (\<lambda>_. t)\<rparr>"

text \<open>Other rooms and readings: the names say what differs.\<close>

definition bright_far :: "ulong \<Rightarrow> snapshot" where
  "bright_far t = \<lparr>distance = 50, noiseVal = 100, luxValue = 500, millis = (\<lambda>_. t)\<rparr>"

definition dim_close :: "ulong \<Rightarrow> snapshot" where
  "dim_close t = \<lparr>distance = 15, noiseVal = 700, luxValue = 50, millis = (\<lambda>_. t)\<rparr>"

definition dark_seated :: "ulong \<Rightarrow> snapshot" where
  "dark_seated t = \<lparr>distance = 30, noiseVal = 400, luxValue = 10, millis = (\<lambda>_. t)\<rparr>"

definition loud_timeout :: "ulong \<Rightarrow> snapshot" where
  "loud_timeout t = \<lparr>distance = 0, noiseVal = 500, luxValue = 100, millis = (\<lambda>_. t)\<rparr>"

definition quiet_timeout :: "ulong \<Rightarrow> snapshot" where
  "quiet_timeout t = \<lparr>distance = 0, noiseVal = 100, luxValue = 100, millis = (\<lambda>_. t)\<rparr>"

text \<open>The user sits down at time 0.\<close>

definition focusing :: session where
  "focusing = loop init (seated 0)"

text \<open>After 45 minutes at the desk the warning state is entered.\<close>

definition warned :: session where
  "warned = loop focusing (seated 2700000)"

text \<open>Two seconds later the user is away and rest mode begins.\<close>

definition resting :: session where
  "resting = loop warned (away 2702000)"

text \<open>After 15 minutes of rest, with the user away, the rest is finished.\<close>

definition rested :: session where
  "rested = loop resting (away 3602000)"

text \<open>The user sits down at time 0 in a bright, quiet room, 50 cm from the sensor.\<close>

definition studying :: session where
  "studying = loop init (bright_far 0)"

text \<open>
  An open focus segment in a run whose closed segments add up to 4294967000 ms, 296 ms
  short of \<open>2 ^ 32\<close>; the sketch never resets \<^verbatim>\<open>totalFocusTime\<close>.
\<close>

definition long_run :: session where
  "long_run = init\<lparr>totalFocusTime := 4294967000, isPresent := True, focusStartTime := 0,
                     lastR := 40, lastG := 40, lastB := 0\<rparr>"

section \<open>Auxiliary facts\<close>

subsection \<open>Which fields each part of the pass leaves alone\<close>

lemmas pass_defs = recompute_def calculateRecommendedTime_def calculateRestTime_def
  warning_pass_def rest_pass_def presence_update_def currentFocus_def enter_warning_def
  after_rest_def status_led_def lcd_rotate_def focus_pass_def safeSetStatusColor_def
  setEnvironmentLight_def

lemmas eval_defs = loop_def pass_defs Let_def validDistance_def userNear_def userTooClose_def
  PRESENT_DISTANCE_def TOO_CLOSE_DISTANCE_def MIN_LUX_def MAX_NOISE_def
  recMin_def recMinRaw_def restMin_def

lemma recompute_frame [simp]:
  "waitingForUserToLeave (recompute s i) = waitingForUserToLeave s"
  "inRestMode (recompute s i) = inRestMode s"
  "isPresent (recompute s i) = isPresent s"
  "restFinished (recompute s i) = restFinished s"
  "totalFocusTime (recompute s i) = totalFocusTime s"
  "focusStartTime (recompute s i) = focusStartTime s"
  "restStartTime (recompute s i) = restStartTime s"
  "absenceStartTime (recompute s i) = absenceStartTime s"
  "envLight (recompute s i) = envLight s"
  "lastR (recompute s i) = lastR s"
  "lastG (recompute s i) = lastG s"
  "lastB (recompute s i) = lastB s"
  by (simp_all add: recompute_def calculateRecommendedTime_def calculateRestTime_def)

lemma recompute_targets [simp]:
  "recommendedFocusTime (recompute s i) =
     word_of_int (recMin (luxValue i) (noiseVal i)
                    (if validDistance (distance i) then distance i else 999)) * 60000"
  "dynamicRestTime (recompute s i) = word_of_int (restMin (luxValue i) (noiseVal i)) * 60000"
  by (simp_all add: recompute_def calculateRecommendedTime_def calculateRestTime_def)

lemma recompute_override:
  "recompute (s\<lparr>recommendedFocusTime := a, dynamicRestTime := b\<rparr>) i = recompute s i"
  by (simp add: recompute_def calculateRecommendedTime_def calculateRestTime_def)

lemma safeSet_frame [simp]:
  "waitingForUserToLeave (safeSetStatusColor r g b s) = waitingForUserToLeave s"
  "inRestMode (safeSetStatusColor r g b s) = inRestMode s"
  "isPresent (safeSetStatusColor r g b s) = isPresent s"
  "restFinished (safeSetStatusColor r g b s) = restFinished s"
  "totalFocusTime (safeSetStatusColor r g b s) = totalFocusTime s"
  "focusStartTime (safeSetStatusColor r g b s) = focusStartTime s"
  "envLight (safeSetStatusColor r g b s) = envLight s"
  "absenceStartTime (safeSetStatusColor r g b s) = absenceStartTime s"
  "restStartTime (safeSetStatusColor r g b s) = restStartTime s"
  "recommendedFocusTime (safeSetStatusColor r g b s) = recommendedFocusTime s"
  "dynamicRestTime (safeSetStatusColor r g b s) = dynamicRestTime s"
  by (simp_all add: safeSetStatusColor_def)

lemma safeSet_colour [simp]:
  "lastR (safeSetStatusColor r g b s) = r"
  "lastG (safeSetStatusColor r g b s) = g"
  "lastB (safeSetStatusColor r g b s) = b"
  by (simp_all add: safeSetStatusColor_def)

lemma setEnv_frame [simp]:
  "waitingForUserToLeave (setEnvironmentLight on s) = waitingForUserToLeave s"
  "inRestMode (setEnvironmentLight on s) = inRestMode s"
  "isPresent (setEnvironmentLight on s) = isPresent s"
  "restFinished (setEnvironmentLight on s) = restFinished s"
  "totalFocusTime (setEnvironmentLight on s) = totalFocusTime s"
  "focusStartTime (setEnvironmentLight on s) = focusStartTime s"
  "restStartTime (setEnvironmentLight on s) = restStartTime s"
  "recommendedFocusTime (setEnvironmentLight on s) = recommendedFocusTime s"
  "dynamicRestTime (setEnvironmentLight on s) = dynamicRestTime s"
  "lastR (setEnvironmentLight on s) = lastR s"
  "lastG (setEnvironmentLight on s) = lastG s"
  "lastB (setEnvironmentLight on s) = lastB s"
  "envLight (setEnvironmentLight on s) = on"
  by (simp_all add: setEnvironmentLight_def)

lemma lcd_rotate_frame [simp]:
  "waitingForUserToLeave (lcd_rotate s i) = waitingForUserToLeave s"
  "inRestMode (lcd_rotate s i) = inRestMode s"
  "isPresent (lcd_rotate s i) = isPresent s"
  "restFinished (lcd_rotate s i) = restFinished s"
  "totalFocusTime (lcd_rotate s i) = totalFocusTime s"
  "focusStartTime (lcd_rotate s i) = focusStartTime s"
  "recommendedFocusTime (lcd_rotate s i) = recommendedFocusTime s"
  "dynamicRestTime (lcd_rotate s i) = dynamicRestTime s"
  "lastR (lcd_rotate s i) = lastR s"
  "lastG (lcd_rotate s i) = lastG s"
  "lastB (lcd_rotate s i) = lastB s"
  "envLight (lcd_rotate s i) = envLight s"
  by (simp_all add: lcd_rotate_def)

lemma status_led_frame [simp]:
  "waitingForUserToLeave (status_led s i) = waitingForUserToLeave s"
  "inRestMode (status_led s i) = inRestMode s"
  "isPresent (status_led s i) = isPresent s"
  "restFinished (status_led s i) = restFinished s"
  "totalFocusTime (status_led s i) = totalFocusTime s"
  "focusStartTime (status_led s i) = focusStartTime s"
  "recommendedFocusTime (status_led s i) = recommendedFocusTime s"
  "dynamicRestTime (status_led s i) = dynamicRestTime s"
  "envLight (status_led s i) = envLight s"
  by (simp_all add: status_led_def)

lemma status_led_absent [simp]: "\<not> isPresent s \<Longrightarrow> status_led s i = s"
  by (simp add: status_led_def)

lemma after_rest_frame [simp]:
  "waitingForUserToLeave (after_rest s i) = waitingForUserToLeave s"
  "inRestMode (after_rest s i) = inRestMode s"
  "isPresent (after_rest s i) = isPresent s"
  "totalFocusTime (after_rest s i) = totalFocusTime s"
  "recommendedFocusTime (after_rest s i) = recommendedFocusTime s"
  "dynamicRestTime (after_rest s i) = dynamicRestTime s"
  by (simp_all add: after_rest_def Let_def)

lemma after_rest_none [simp]: "\<not> restFinished s \<Longrightarrow> after_rest s i = s"
  by (simp add: after_rest_def)

lemma enter_warning_fields [simp]:
  "waitingForUserToLeave (enter_warning s i) = True"
  "inRestMode (enter_warning s i) = inRestMode s"
  "isPresent (enter_warning s i) = False"
  "totalFocusTime (enter_warning s i) = totalFocusTime s + currentFocus s i"
  "absenceStartTime (enter_warning s i) = millis i 263"
  "recommendedFocusTime (enter_warning s i) = recommendedFocusTime s"
  "dynamicRestTime (enter_warning s i) = dynamicRestTime s"
  "envLight (enter_warning s i) = envLight s"
  by (simp_all add: enter_warning_def)

lemma presence_is_near: "isPresent (presence_update s i) = userNear (distance i)"
  by (simp add: presence_update_def Let_def)

lemma presence_frame [simp]:
  "waitingForUserToLeave (presence_update s i) = waitingForUserToLeave s"
  "inRestMode (presence_update s i) = inRestMode s"
  "envLight (presence_update s i) = envLight s"
  "lastR (presence_update s i) = lastR s"
  "lastG (presence_update s i) = lastG s"
  "lastB (presence_update s i) = lastB s"
  "recommendedFocusTime (presence_update s i) = recommendedFocusTime s"
  "dynamicRestTime (presence_update s i) = dynamicRestTime s"
  by (simp_all add: presence_update_def Let_def)

lemma presence_total:
  "totalFocusTime (presence_update s i) =
     (if isPresent s \<and> \<not> userNear (distance i)
      then totalFocusTime s + (millis i 250 - focusStartTime s) else totalFocusTime s)"
  by (simp add: presence_update_def Let_def)

lemma presence_restFinished:
  "restFinished (presence_update s i) =
     (restFinished s \<and> \<not> (userNear (distance i) \<and> \<not> isPresent s))"
  by (auto simp add: presence_update_def Let_def)

lemma currentFocus_presence:
  "userNear (distance i) \<Longrightarrow>
   currentFocus (presence_update s i) i =
     millis i 254 - (if isPresent s then focusStartTime s else millis i 246)"
  by (simp add: currentFocus_def presence_update_def Let_def)

subsection \<open>The three branches of the pass\<close>

lemma loop_warning: "waitingForUserToLeave s \<Longrightarrow> loop s i = warning_pass (recompute s i) i"
  by (simp add: loop_def)

lemma loop_rest:
  "\<not> waitingForUserToLeave s \<Longrightarrow> inRestMode s \<Longrightarrow> loop s i = rest_pass (recompute s i) i"
  by (simp add: loop_def)

lemma loop_focus:
  "\<not> waitingForUserToLeave s \<Longrightarrow> \<not> inRestMode s \<Longrightarrow> loop s i = focus_pass (recompute s i) i"
  by (simp add: loop_def)

lemma loop_override: "loop (s\<lparr>recommendedFocusTime := a, dynamicRestTime := b\<rparr>) i = loop s i"
  by (simp add: loop_def recompute_override)

lemma warning_step:
  assumes "waitingForUserToLeave s" "\<not> inRestMode s"
  shows "userNear (distance i) \<longrightarrow> absenceStartTime (loop s i) = millis i 194"
    and "\<not> userNear (distance i) \<longrightarrow> absenceStartTime (loop s i) = absenceStartTime s"
    and "waitingForUserToLeave (loop s i) =
           (\<not> (\<not> userNear (distance i) \<and> millis i 198 - absenceStartTime s \<ge> 2000))"
    and "inRestMode (loop s i) =
           (\<not> userNear (distance i) \<and> millis i 198 - absenceStartTime s \<ge> 2000)"
    and "inRestMode (loop s i) \<longrightarrow> restStartTime (loop s i) = millis i 201"
  using assms by (simp_all add: loop_warning warning_pass_def Let_def)

lemma warning_frame:
  assumes "waitingForUserToLeave s"
  shows "envLight (loop s i) = envLight s"
    and "totalFocusTime (loop s i) = totalFocusTime s"
    and "isPresent (loop s i) = isPresent s"
  using assms by (simp_all add: loop_warning warning_pass_def Let_def)

lemma warning_run:
  "waitingForUserToLeave s \<Longrightarrow> \<not> inRestMode s \<Longrightarrow> debounce_open (absenceStartTime s) is
   \<Longrightarrow> waitingForUserToLeave (run s is) \<and> \<not> inRestMode (run s is)"
proof (induction "is" arbitrary: s)
  case Nil
  then show ?case by simp
next
  case (Cons i "is")
  show ?case
  proof (cases "userNear (distance i)")
    case True
    with Cons.prems have "waitingForUserToLeave (loop s i)" "\<not> inRestMode (loop s i)"
      "debounce_open (absenceStartTime (loop s i)) is"
      by (auto simp add: warning_step)
    then show ?thesis using Cons.IH by simp
  next
    case False
    with Cons.prems have "waitingForUserToLeave (loop s i)" "\<not> inRestMode (loop s i)"
      "debounce_open (absenceStartTime (loop s i)) is"
      by (auto simp add: warning_step)
    then show ?thesis using Cons.IH by simp
  qed
qed

lemma rest_step:
  assumes "inRestMode s" "\<not> waitingForUserToLeave s"
  shows "inRestMode (loop s i) = (\<not> (\<not> userNear (distance i) \<and>
            millis i 216 - restStartTime s \<ge> word_of_int (restMin (luxValue i) (noiseVal i)) * 60000))"
    and "restFinished (loop s i) = (restFinished s \<or> (\<not> userNear (distance i) \<and>
            millis i 216 - restStartTime s \<ge> word_of_int (restMin (luxValue i) (noiseVal i)) * 60000))"
    and "\<not> waitingForUserToLeave (loop s i)"
    and "restStartTime (loop s i) = restStartTime s"
    and "\<not> envLight (loop s i)"
    and "totalFocusTime (loop s i) = totalFocusTime s"
    and "isPresent (loop s i) = isPresent s"
  using assms by (simp_all add: loop_rest rest_pass_def Let_def)

lemma focus_pass_waiting:
  "\<not> waitingForUserToLeave s \<Longrightarrow>
   waitingForUserToLeave (focus_pass s i) =
     (\<not> inRestMode s \<and> userNear (distance i) \<and>
      currentFocus (presence_update s i) i \<ge> recommendedFocusTime s)"
  by (simp add: focus_pass_def Let_def presence_is_near)

lemma focus_pass_isPresent:
  "isPresent (focus_pass s i) =
     (userNear (distance i) \<and>
      \<not> (\<not> inRestMode s \<and> currentFocus (presence_update s i) i \<ge> recommendedFocusTime s))"
  by (auto simp add: focus_pass_def Let_def presence_is_near)

lemma focus_pass_inRest: "inRestMode (focus_pass s i) = inRestMode s"
  by (simp add: focus_pass_def Let_def)

lemma focus_pass_targets:
  "recommendedFocusTime (focus_pass s i) = recommendedFocusTime s"
  "dynamicRestTime (focus_pass s i) = dynamicRestTime s"
  by (simp_all add: focus_pass_def Let_def)

lemma focus_pass_total:
  "totalFocusTime (focus_pass s i) =
     (if \<not> inRestMode s \<and> userNear (distance i) \<and>
          currentFocus (presence_update s i) i \<ge> recommendedFocusTime s
      then totalFocusTime s + currentFocus (presence_update s i) i
      else if isPresent s \<and> \<not> userNear (distance i)
      then totalFocusTime s + (millis i 250 - focusStartTime s) else totalFocusTime s)"
  by (simp add: focus_pass_def Let_def presence_is_near presence_total)

lemma focus_pass_env:
  "\<not> waitingForUserToLeave s \<Longrightarrow>
   envLight (focus_pass s i) =
     (if waitingForUserToLeave (focus_pass s i) then envLight s
      else luxValue i < real_of_int MIN_LUX)"
  by (simp add: focus_pass_def Let_def)

lemma focus_pass_hold:
  "\<not> restFinished s \<Longrightarrow> \<not> userNear (distance i) \<Longrightarrow>
   lastR (focus_pass s i) = lastR s \<and> lastG (focus_pass s i) = lastG s
   \<and> lastB (focus_pass s i) = lastB s"
  by (simp add: focus_pass_def Let_def presence_is_near presence_restFinished)

lemma loop_targets:
  "recommendedFocusTime (loop s i) =
     word_of_int (recMin (luxValue i) (noiseVal i)
                    (if validDistance (distance i) then distance i else 999)) * 60000"
  "dynamicRestTime (loop s i) = word_of_int (restMin (luxValue i) (noiseVal i)) * 60000"
  by (simp_all add: loop_def Let_def warning_pass_def rest_pass_def focus_pass_targets)

subsection \<open>The stored recommendation in milliseconds\<close>

lemma ms_uint:
  assumes "0 \<le> m" and "m \<le> 60"
  shows "uint (word_of_int m * 60000 :: 32 word) = m * 60000"
proof -
  have e: "(word_of_int m * 60000 :: 32 word) = word_of_int (m * 60000)" by simp
  have "uint (word_of_int (m * 60000) :: 32 word) = (m * 60000) mod 2 ^ 32"
    unfolding uint_word_of_int by simp
  moreover have "(m * 60000) mod 2 ^ 32 = m * 60000"
    using assms by (intro mod_pos_pos_trivial) auto
  ultimately show ?thesis unfolding e by simp
qed

lemma recMin_bounds: "25 \<le> recMin lux noise d \<and> recMin lux noise d \<le> 60"
  by (simp add: recMin_def Let_def)

lemma recMin_v20_bounds: "20 \<le> recMin_v20 lux noise d \<and> recMin_v20 lux noise d \<le> 60"
  by (simp add: recMin_v20_def Let_def)

subsection \<open>When the warning state is entered, and what is added to the total\<close>

lemma loop_enters_warning:
  assumes "\<not> waitingForUserToLeave s" "\<not> inRestMode s"
  shows "waitingForUserToLeave (loop s i) =
     (userNear (distance i) \<and>
      word_of_int (recMin (luxValue i) (noiseVal i) (distance i)) * 60000
        \<le> millis i 254 - (if isPresent s then focusStartTime s else millis i 246))"
proof (cases "userNear (distance i)")
  case False
  with assms show ?thesis by (simp add: loop_focus focus_pass_waiting)
next
  case True
  then have v: "validDistance (distance i)" by (simp add: userNear_def)
  with assms True show ?thesis
    by (simp add: loop_focus focus_pass_waiting currentFocus_presence)
qed

lemma loop_total:
  assumes "\<not> waitingForUserToLeave s" "\<not> inRestMode s"
  shows "totalFocusTime (loop s i) =
          (if waitingForUserToLeave (loop s i)
           then totalFocusTime s + currentFocus (presence_update (recompute s i) i) i
           else if isPresent s \<and> \<not> userNear (distance i)
           then totalFocusTime s + (millis i 250 - focusStartTime s) else totalFocusTime s)"
  using assms by (simp add: loop_focus focus_pass_total focus_pass_waiting)

subsection \<open>The invariant of the reachable states\<close>

lemma session_inv_init: "session_inv init"
  by (simp add: session_inv_def init_def)

lemma session_inv_loop: "session_inv s \<Longrightarrow> session_inv (loop s i)"
proof (cases "waitingForUserToLeave s")
  case True
  assume "session_inv s"
  with True show ?thesis
    by (simp add: loop_warning session_inv_def warning_pass_def Let_def)
next
  case False
  assume inv: "session_inv s"
  show ?thesis
  proof (cases "inRestMode s")
    case True
    with False inv show ?thesis
      by (simp add: loop_rest session_inv_def rest_pass_def Let_def)
  next
    case r: False
    with False show ?thesis
      by (simp add: loop_focus session_inv_def focus_pass_waiting focus_pass_isPresent
          focus_pass_inRest)
  qed
qed

lemma session_inv_run: "session_inv s \<Longrightarrow> session_inv (run s is)"
  by (induction "is" arbitrary: s) (simp_all add: session_inv_loop)

lemma finished_inv_init: "finished_inv init"
  by (simp add: finished_inv_def init_def)

lemma focus_pass_restFinished:
  "restFinished (focus_pass s i)
   \<Longrightarrow> restFinished s \<and> (\<not> userNear (distance i) \<or> isPresent s)"
  by (auto simp add: focus_pass_def Let_def after_rest_def presence_restFinished
      enter_warning_def split: if_splits)

lemma finished_inv_loop:
  assumes "session_inv s" and "finished_inv s"
  shows "finished_inv (loop s i)"
proof (cases "waitingForUserToLeave s")
  case True
  with assms show ?thesis
    by (simp add: loop_warning finished_inv_def session_inv_def warning_pass_def Let_def)
next
  case w: False
  show ?thesis
  proof (cases "inRestMode s")
    case True
    with w assms show ?thesis
      by (simp add: loop_rest finished_inv_def session_inv_def rest_pass_def Let_def)
  next
    case False
    with w assms(2) show ?thesis
      using focus_pass_restFinished [of "recompute s i" i]
      by (auto simp add: loop_focus finished_inv_def focus_pass_isPresent)
  qed
qed

lemma invs_run:
  "session_inv s \<Longrightarrow> finished_inv s \<Longrightarrow> session_inv (run s is) \<and> finished_inv (run s is)"
  by (induction "is" arbitrary: s) (simp_all add: session_inv_loop finished_inv_loop)

lemma invs_reachable: "session_inv (run init is) \<and> finished_inv (run init is)"
  by (simp add: invs_run session_inv_init finished_inv_init)

text \<open>The recommendation is never below 25 minutes.\<close>

lemma recMin_ms_floor: "(1500000 :: 32 word) \<le> word_of_int (recMin lux noise d) * 60000"
proof -
  have "uint (word_of_int (recMin lux noise d) * 60000 :: 32 word) = recMin lux noise d * 60000"
    using recMin_bounds [of lux noise d] by (intro ms_uint) auto
  moreover have "25 * 60000 \<le> recMin lux noise d * 60000"
    using recMin_bounds [of lux noise d] by simp
  ultimately show ?thesis by (simp add: word_le_def)
qed

text \<open>
  A pass that starts in the wait after a rest leaves the total alone, unless the clock
  readings of lines 246 and 254 of that one pass are 25 minutes or more apart.
\<close>

lemma finished_total:
  assumes "\<not> waitingForUserToLeave s" "\<not> inRestMode s" "restFinished s" "finished_inv s"
    and b: "millis i 254 - millis i 246 < 1500000"
  shows "totalFocusTime (loop s i) = totalFocusTime s"
proof -
  from assms(3,4) have np: "\<not> isPresent s" by (simp add: finished_inv_def)
  have "\<not> (word_of_int (recMin (luxValue i) (noiseVal i) (distance i)) * 60000
            \<le> millis i 254 - millis i 246)"
    using b recMin_ms_floor [of "luxValue i" "noiseVal i" "distance i"] by simp
  with assms(1,2) np have "\<not> waitingForUserToLeave (loop s i)"
    by (simp add: loop_enters_warning)
  with assms(1,2) np show ?thesis by (simp add: loop_total)
qed

lemma invalid_not_present:
  assumes "session_inv s" and "\<not> validDistance (distance i)"
  shows "\<not> isPresent (loop s i)"
proof (cases "waitingForUserToLeave s \<or> inRestMode s")
  case True
  with assms(1) have "\<not> isPresent s" by (auto simp add: session_inv_def)
  with True show ?thesis
    by (cases "waitingForUserToLeave s") (simp_all add: warning_frame rest_step)
next
  case False
  with assms(2) show ?thesis
    by (simp add: loop_focus focus_pass_isPresent userNear_def)
qed

text \<open>
  The branch of lines 286 to 294 is never taken: with an invalid distance the presence
  update has cleared \<^verbatim>\<open>isPresent\<close> before the status colour is chosen.
\<close>

lemma invalid_distance_branch_dead:
  "\<not> validDistance (distance i) \<Longrightarrow>
   \<not> isPresent (after_rest (presence_update s i) i)
   \<and> status_led (after_rest (presence_update s i) i) i = after_rest (presence_update s i) i"
  by (simp add: presence_is_near userNear_def)

subsection \<open>The states of the scenarios\<close>

lemma focusing_eq:
  "focusing = init\<lparr>recommendedFocusTime := 2700000, dynamicRestTime := 900000,
      isPresent := True, lastR := 40, lastG := 40, lastB := 0\<rparr>"
  by (simp add: focusing_def init_def seated_def eval_defs)

lemma warned_eq:
  "warned = init\<lparr>recommendedFocusTime := 2700000, dynamicRestTime := 900000,
      totalFocusTime := 2700000, absenceStartTime := 2700000,
      waitingForUserToLeave := True, lastR := 40, lastG := 0, lastB := 0\<rparr>"
  by (simp add: warned_def focusing_eq init_def seated_def eval_defs)

lemma resting_eq:
  "resting = init\<lparr>recommendedFocusTime := 3000000, dynamicRestTime := 900000,
      totalFocusTime := 2700000, absenceStartTime := 2700000, restStartTime := 2702000,
      inRestMode := True, lastR := 40, lastG := 0, lastB := 0\<rparr>"
  by (simp add: resting_def warned_eq init_def away_def eval_defs)

lemma rested_eq:
  "rested = init\<lparr>recommendedFocusTime := 3000000, dynamicRestTime := 900000,
      totalFocusTime := 2700000, absenceStartTime := 2700000, restStartTime := 2702000,
      restFinished := True, lastR := 20, lastG := 20, lastB := 0\<rparr>"
  by (simp add: rested_def resting_eq init_def away_def eval_defs)

lemma studying_eq:
  "studying = init\<lparr>recommendedFocusTime := 3600000, dynamicRestTime := 600000,
      isPresent := True, lastR := 0, lastG := 40, lastB := 0\<rparr>"
  by (simp add: studying_def init_def bright_far_def eval_defs)

section \<open>The claims\<close>

subsection \<open>C1: the target of a running segment\<close>

text \<open>
  C1 says that the exit check of a running focus or rest segment uses a target captured
  when the segment began, so that a later recomputation never changes it. The sketch has
  no such latch. The user sits down in a bright, quiet room and the recommendation is 60
  minutes; 30 minutes later the room is dim and loud and the user leans in: the focus
  segment is closed on that pass, against the 25 minutes just computed, although the 30
  minutes elapsed are below the 60 minutes stored when the segment began.
\<close>

theorem recommendation_latch_counterexample:
  "isPresent studying \<and> \<not> waitingForUserToLeave studying \<and> \<not> inRestMode studying
   \<and> userNear (distance (dim_close 1800000))
   \<and> recommendedFocusTime studying = 3600000
   \<and> millis (dim_close 1800000) 254 - focusStartTime studying = 1800000
   \<and> \<not> (waitingForUserToLeave (loop studying (dim_close 1800000))
         \<longleftrightarrow> recommendedFocusTime studying
               \<le> millis (dim_close 1800000) 254 - focusStartTime studying)"
  by (simp add: studying_eq init_def dim_close_def eval_defs)

text \<open>
  C1 as amended: both targets are recomputed from the snapshot of every pass, and the
  exit checks use the recomputed values. The values stored by earlier passes have no
  effect on the pass; a running focus segment is closed by the warning exactly when the
  elapsed time reaches the recommendation of the current snapshot, and rest ends exactly
  when the user is away and the elapsed time reaches the rest time of the current
  snapshot.
\<close>

theorem targets_recomputed_each_pass:
  "loop (s\<lparr>recommendedFocusTime := a, dynamicRestTime := b\<rparr>) i = loop s i
   \<and> recommendedFocusTime (loop s i)
       = word_of_int (recMin (luxValue i) (noiseVal i)
                        (if validDistance (distance i) then distance i else 999)) * 60000
   \<and> dynamicRestTime (loop s i) = word_of_int (restMin (luxValue i) (noiseVal i)) * 60000
   \<and> (\<not> waitingForUserToLeave s \<and> \<not> inRestMode s \<and> isPresent s \<and> userNear (distance i)
        \<longrightarrow> (waitingForUserToLeave (loop s i)
              \<longleftrightarrow> word_of_int (recMin (luxValue i) (noiseVal i) (distance i)) * 60000
                    \<le> millis i 254 - focusStartTime s))
   \<and> (\<not> waitingForUserToLeave s \<and> inRestMode s
        \<longrightarrow> (\<not> inRestMode (loop s i)
              \<longleftrightarrow> \<not> userNear (distance i)
                  \<and> word_of_int (restMin (luxValue i) (noiseVal i)) * 60000
                    \<le> millis i 216 - restStartTime s))"
proof -
  have focus: "waitingForUserToLeave (loop s i)
      \<longleftrightarrow> word_of_int (recMin (luxValue i) (noiseVal i) (distance i)) * 60000
            \<le> millis i 254 - focusStartTime s"
    if "\<not> waitingForUserToLeave s" "\<not> inRestMode s" "isPresent s" "userNear (distance i)"
    using that by (simp add: loop_enters_warning)
  have rest: "\<not> inRestMode (loop s i)
      \<longleftrightarrow> \<not> userNear (distance i)
          \<and> word_of_int (restMin (luxValue i) (noiseVal i)) * 60000
            \<le> millis i 216 - restStartTime s"
    if "\<not> waitingForUserToLeave s" "inRestMode s"
    using that by (simp add: rest_step)
  show ?thesis
    using focus rest by (simp only: loop_override loop_targets) blast
qed

theorem targets_recomputed_each_pass_witness:
  "\<not> waitingForUserToLeave studying \<and> \<not> inRestMode studying \<and> isPresent studying
   \<and> userNear (distance (dim_close 1800000))
   \<and> recommendedFocusTime (loop studying (dim_close 1800000)) = 1500000
   \<and> waitingForUserToLeave (loop studying (dim_close 1800000))
   \<and> \<not> waitingForUserToLeave resting \<and> inRestMode resting
   \<and> dynamicRestTime (loop resting (away 3602000)) = 900000
   \<and> \<not> inRestMode (loop resting (away 3602000))"
  using targets_recomputed_each_pass [where s = studying and i = "dim_close 1800000"]
    targets_recomputed_each_pass [where s = resting and i = "away 3602000"]
  by (simp add: studying_eq resting_eq init_def dim_close_def away_def validDistance_def
      userNear_def PRESENT_DISTANCE_def recMin_def recMinRaw_def restMin_def Let_def)

subsection \<open>C2: the debounce of the warning state\<close>

text \<open>
  C2: in the warning state, a pass that sees the user near sets \<^verbatim>\<open>absenceStartTime\<close>
  to the current time and stays in the warning state; a pass that sees the user away
  leaves the timer alone and moves to rest mode exactly when 2000 ms or more have passed
  since the timer was last set. Along any sequence of passes in which no absent pass
  comes 2000 ms or more after the last reset, the machine stays in the warning state and
  never enters rest mode.
\<close>

theorem warning_debounce:
  assumes "waitingForUserToLeave s" and "\<not> inRestMode s"
  shows "(userNear (distance i)
           \<longrightarrow> absenceStartTime (loop s i) = millis i 194 \<and> waitingForUserToLeave (loop s i)
               \<and> \<not> inRestMode (loop s i))
       \<and> (\<not> userNear (distance i) \<longrightarrow> absenceStartTime (loop s i) = absenceStartTime s)
       \<and> (inRestMode (loop s i)
           \<longleftrightarrow> \<not> userNear (distance i) \<and> 2000 \<le> millis i 198 - absenceStartTime s)
       \<and> (waitingForUserToLeave (loop s i) \<longleftrightarrow> \<not> inRestMode (loop s i))
       \<and> (inRestMode (loop s i) \<longrightarrow> restStartTime (loop s i) = millis i 201)
       \<and> (debounce_open (absenceStartTime s) is
           \<longrightarrow> waitingForUserToLeave (run s is) \<and> \<not> inRestMode (run s is))"
  using warning_step [OF assms, of i] warning_run [OF assms, of "is"] by simp

text \<open>
  The scenario of the specification: the warning begins after 45 minutes; the user is
  still seated at 46 minutes, is away for 1.5 s, comes back, and is away again for 1.75 s.
  The machine is still in the warning state. Had the first absence lasted 2 s, rest mode
  would have begun.
\<close>

theorem warning_debounce_witness:
  "waitingForUserToLeave warned \<and> \<not> inRestMode warned
   \<and> debounce_open (absenceStartTime warned)
        [seated 2760000, away 2760250, away 2761500, seated 2761750, away 2762000,
         away 2763500]
   \<and> waitingForUserToLeave
        (run warned [seated 2760000, away 2760250, away 2761500, seated 2761750,
                     away 2762000, away 2763500])
   \<and> userNear (distance (seated 2760000))
   \<and> absenceStartTime (loop warned (seated 2760000)) = 2760000
   \<and> \<not> userNear (distance (away 2702000))
   \<and> inRestMode (loop warned (away 2702000))
   \<and> \<not> inRestMode (loop warned (away 2701999))"
  using warning_debounce [of warned "seated 2760000"
      "[seated 2760000, away 2760250, away 2761500, seated 2761750, away 2762000,
        away 2763500]"]
    warning_debounce [of warned "away 2702000" "[]"]
    warning_debounce [of warned "away 2701999" "[]"]
  by (simp add: warned_eq init_def seated_def away_def validDistance_def userNear_def
      PRESENT_DISTANCE_def)

subsection \<open>C3: the end of rest\<close>

text \<open>
  C3: in rest mode, the pass leaves rest mode and sets \<^verbatim>\<open>restFinished\<close> exactly when
  the user is away and the elapsed rest time is at least \<^verbatim>\<open>dynamicRestTime\<close>, the rest
  time computed on that pass (the comparison is \<open>\<ge>\<close>). A pass that sees the user near
  stays in rest mode and does not move the start of the rest.
\<close>

theorem rest_termination:
  assumes "inRestMode s" and "\<not> waitingForUserToLeave s"
  shows "(\<not> inRestMode (loop s i)
           \<longleftrightarrow> \<not> userNear (distance i)
               \<and> dynamicRestTime (recompute s i) \<le> millis i 216 - restStartTime s)
       \<and> (restFinished (loop s i) \<longleftrightarrow> restFinished s \<or> \<not> inRestMode (loop s i))
       \<and> (userNear (distance i) \<longrightarrow> inRestMode (loop s i))
       \<and> restStartTime (loop s i) = restStartTime s
       \<and> \<not> waitingForUserToLeave (loop s i)"
  using rest_step [OF assms, of i] by simp

text \<open>
  The scenario of the specification: the rest time is 15 minutes and the rest began at
  2702000 ms. After 14 minutes 59 seconds, with the user away, rest goes on; after 15
  minutes it is finished. With the user near at 15 minutes, rest goes on.
\<close>

theorem rest_termination_witness:
  "inRestMode resting \<and> \<not> waitingForUserToLeave resting
   \<and> dynamicRestTime (recompute resting (away 3601000)) = 900000
   \<and> inRestMode (loop resting (away 3601000)) \<and> \<not> restFinished (loop resting (away 3601000))
   \<and> \<not> inRestMode (loop resting (away 3602000)) \<and> restFinished (loop resting (away 3602000))
   \<and> userNear (distance (seated 3602000))
   \<and> inRestMode (loop resting (seated 3602000))"
  using rest_termination [of resting "away 3601000"]
    rest_termination [of resting "away 3602000"]
    rest_termination [of resting "seated 3602000"]
  by (simp add: resting_eq init_def seated_def away_def validDistance_def
      userNear_def PRESENT_DISTANCE_def restMin_def Let_def)

subsection \<open>C4: the classification of the distance\<close>

text \<open>
  C4: too close implies near, and near implies a valid distance; a distance is valid
  exactly when it lies strictly between 5 and 200, so the timeout value 0 is invalid. A
  pass with an invalid distance sees the user as not near, and after it no focus segment
  is open.
\<close>

theorem distance_classification:
  "(userTooClose d \<longrightarrow> userNear d) \<and> (userNear d \<longrightarrow> validDistance d)
   \<and> (validDistance d \<longleftrightarrow> 5 < d \<and> d < 200)
   \<and> (\<not> validDistance d \<longrightarrow> \<not> userNear d \<and> \<not> userTooClose d)
   \<and> getDistanceCM conv 0 = 0 \<and> \<not> validDistance (getDistanceCM conv 0)
   \<and> (session_inv s \<and> \<not> validDistance (distance i) \<longrightarrow> \<not> isPresent (loop s i))"
  using invalid_not_present [of s i]
  by (auto simp add: userTooClose_def userNear_def validDistance_def getDistanceCM_def
      PRESENT_DISTANCE_def TOO_CLOSE_DISTANCE_def)

theorem distance_classification_witness:
  "userTooClose 10 \<and> userNear 10 \<and> validDistance 10
   \<and> \<not> validDistance 250 \<and> \<not> userNear 250
   \<and> session_inv focusing \<and> isPresent focusing \<and> \<not> validDistance (distance (away 1000))
   \<and> \<not> isPresent (loop focusing (away 1000))"
  using distance_classification [of 10 id focusing "away 1000"]
    distance_classification [of 250 id focusing "away 1000"]
  by (simp add: userTooClose_def userNear_def validDistance_def PRESENT_DISTANCE_def
      TOO_CLOSE_DISTANCE_def session_inv_def focusing_eq init_def away_def)

subsection \<open>C5: the recommendation against its reference definition\<close>

text \<open>
  C5: the minutes \<^verbatim>\<open>calculateRecommendedTime\<close> computes are those of the reference
  definition with the floor 25, and the stored value is that number of minutes in
  milliseconds. For 500 lux, noise 100 and 50 cm the sum is 70 minutes and the result is
  60 minutes.
\<close>

theorem calculateRecommendedTime_reference:
  "recMin lux noise d = recommended_minutes_spec 25 lux noise d
   \<and> recommendedFocusTime (calculateRecommendedTime lux noise d s)
       = word_of_int (recommended_minutes_spec 25 lux noise d) * 60000
   \<and> recMinRaw 500 100 50 = 70
   \<and> recMin 500 100 50 = 60
   \<and> recommendedFocusTime (calculateRecommendedTime 500 100 50 s) = 3600000"
proof -
  have eq: "recMin lux noise d = recommended_minutes_spec 25 lux noise d"
    by (simp add: recMin_def recMinRaw_def recommended_minutes_spec_def clamp_spec_def
        luxDelta_spec_def noiseDelta_spec_def distanceDelta_spec_def Let_def)
  have raw: "recMinRaw 500 100 50 = 70"
    by (simp add: recMinRaw_def Let_def)
  have r: "recMin 500 100 50 = 60"
    by (simp add: recMin_def raw Let_def)
  show ?thesis
    by (simp add: eq [symmetric] raw r calculateRecommendedTime_def)
qed

subsection \<open>C6: the floor of the recommendation\<close>

text \<open>
  C6: for 50 lux, noise 700 and 15 cm the sum is 20 minutes. The sketch with the floor 25
  returns 25 minutes, the sketch with the floor 20 returns 20 minutes, and every result
  lies between the floor and 60 minutes.
\<close>

theorem calculateRecommendedTime_floor:
  "recMinRaw 50 700 15 = 20 \<and> recMin 50 700 15 = 25
   \<and> recommendedFocusTime (calculateRecommendedTime 50 700 15 s) = 25 * 60000
   \<and> recMinRaw_v20 50 700 15 = 20 \<and> recMin_v20 50 700 15 = 20
   \<and> recommendedFocusTime (calculateRecommendedTime_v20 50 700 15 s) = 20 * 60000
   \<and> 25 \<le> recMin lux noise d \<and> recMin lux noise d \<le> 60
   \<and> 20 \<le> recMin_v20 lux noise d \<and> recMin_v20 lux noise d \<le> 60
   \<and> uint (recommendedFocusTime (calculateRecommendedTime lux noise d s))
       = recMin lux noise d * 60000
   \<and> uint (recommendedFocusTime (calculateRecommendedTime_v20 lux noise d s))
       = recMin_v20 lux noise d * 60000"
proof -
  have raw: "recMinRaw 50 700 15 = 20" "recMinRaw_v20 50 700 15 = 20"
    by (simp_all add: recMinRaw_def recMinRaw_v20_def Let_def)
  have r: "recMin 50 700 15 = 25" "recMin_v20 50 700 15 = 20"
    by (simp_all add: recMin_def recMin_v20_def raw Let_def)
  have u: "uint (word_of_int (recMin lux noise d) * 60000 :: 32 word)
             = recMin lux noise d * 60000"
    using recMin_bounds [of lux noise d] by (intro ms_uint) auto
  have u20: "uint (word_of_int (recMin_v20 lux noise d) * 60000 :: 32 word)
             = recMin_v20 lux noise d * 60000"
    using recMin_v20_bounds [of lux noise d] by (intro ms_uint) auto
  show ?thesis
    using recMin_bounds [of lux noise d] recMin_v20_bounds [of lux noise d]
    by (simp add: raw r u u20 calculateRecommendedTime_def calculateRecommendedTime_v20_def)
qed

subsection \<open>C7: the status colour while the user is absent\<close>

text \<open>
  C7: on a pass that starts outside the warning state, rest mode and the wait after a
  rest, and on which \<^verbatim>\<open>isPresent\<close> is false once the presence update has run, the
  status colour is not written: \<^verbatim>\<open>lastR\<close>, \<^verbatim>\<open>lastG\<close> and \<^verbatim>\<open>lastB\<close> keep their
  values.
\<close>

theorem absent_holds_colour:
  assumes "\<not> waitingForUserToLeave s" and "\<not> inRestMode s" and "\<not> restFinished s"
    and "\<not> isPresent (presence_update (recompute s i) i)"
  shows "lastR (loop s i) = lastR s \<and> lastG (loop s i) = lastG s \<and> lastB (loop s i) = lastB s
       \<and> \<not> isPresent (loop s i)"
proof -
  from assms(4) have n: "\<not> userNear (distance i)" by (simp add: presence_is_near)
  from assms(3) have "\<not> restFinished (recompute s i)" by simp
  from focus_pass_hold [OF this n] assms(1,2) n show ?thesis
    by (simp add: loop_focus focus_pass_isPresent)
qed

theorem absent_holds_colour_witness:
  "\<not> waitingForUserToLeave studying \<and> \<not> inRestMode studying \<and> \<not> restFinished studying
   \<and> \<not> isPresent (presence_update (recompute studying (away 1000)) (away 1000))
   \<and> lastR (loop studying (away 1000)) = 0 \<and> lastG (loop studying (away 1000)) = 40
   \<and> lastB (loop studying (away 1000)) = 0"
  using absent_holds_colour [of studying "away 1000"]
  by (simp add: presence_is_near studying_eq init_def away_def validDistance_def userNear_def)

subsection \<open>C8: the environment light\<close>

text \<open>
  C8 says that on every pass outside rest mode the environment light is on exactly when
  the room is too dark. In the warning state the sketch returns before it reaches
  \<^verbatim>\<open>setEnvironmentLight\<close>: the room is dark, the machine is in the warning state and
  not in rest mode, and the light stays off.
\<close>

theorem environment_light_counterexample:
  "waitingForUserToLeave warned \<and> \<not> inRestMode warned
   \<and> luxValue (dark_seated 2700250) < real_of_int MIN_LUX
   \<and> \<not> envLight (loop warned (dark_seated 2700250))"
  by (simp add: warned_eq init_def dark_seated_def eval_defs)

text \<open>
  C8 as amended: a pass that starts outside the warning state and rest mode and does not
  enter the warning state sets the light on exactly when the lux reading is below
  \<^verbatim>\<open>MIN_LUX\<close>; a pass in rest mode sets it off; a pass in the warning state, and the
  pass that enters the warning state, do not write the light, which keeps its value.
\<close>

theorem environment_light:
  "(\<not> waitingForUserToLeave s \<and> \<not> inRestMode s \<and> \<not> waitingForUserToLeave (loop s i)
      \<longrightarrow> envLight (loop s i) = (luxValue i < real_of_int MIN_LUX))
   \<and> (\<not> waitingForUserToLeave s \<and> inRestMode s \<longrightarrow> \<not> envLight (loop s i))
   \<and> (waitingForUserToLeave s \<or> waitingForUserToLeave (loop s i)
      \<longrightarrow> envLight (loop s i) = envLight s)"
proof -
  have a: "envLight (loop s i) = (luxValue i < real_of_int MIN_LUX)"
    if "\<not> waitingForUserToLeave s" "\<not> inRestMode s" "\<not> waitingForUserToLeave (loop s i)"
    using that by (simp add: loop_focus focus_pass_env)
  have b: "\<not> envLight (loop s i)" if "\<not> waitingForUserToLeave s" "inRestMode s"
    using that by (simp add: rest_step)
  have c: "envLight (loop s i) = envLight s"
    if w: "waitingForUserToLeave s \<or> waitingForUserToLeave (loop s i)"
  proof (cases "waitingForUserToLeave s")
    case True
    then show ?thesis by (simp add: warning_frame)
  next
    case False
    with w have e: "waitingForUserToLeave (loop s i)" by simp
    with False have "\<not> inRestMode s" using rest_step(3) [of s i] by blast
    with False e show ?thesis by (simp add: loop_focus focus_pass_env)
  qed
  from a b c show ?thesis by blast
qed

theorem environment_light_witness:
  "\<not> waitingForUserToLeave focusing \<and> \<not> inRestMode focusing
   \<and> \<not> waitingForUserToLeave (loop focusing (dark_seated 1000))
   \<and> envLight (loop focusing (dark_seated 1000))
   \<and> \<not> waitingForUserToLeave resting \<and> inRestMode resting
   \<and> \<not> envLight (loop resting (dark_seated 2703000))
   \<and> waitingForUserToLeave warned
   \<and> envLight (loop warned (dark_seated 2700250)) = envLight warned"
  using environment_light [of focusing "dark_seated 1000"]
    environment_light [of resting "dark_seated 2703000"]
    environment_light [of warned "dark_seated 2700250"]
  by (simp add: loop_enters_warning focusing_eq resting_eq warned_eq init_def dark_seated_def
      validDistance_def userNear_def PRESENT_DISTANCE_def MIN_LUX_def recMin_def recMinRaw_def
      Let_def)

subsection \<open>C9: an invalid distance while focusing\<close>

text \<open>
  C9 says that a pass with an open focus segment and an invalid distance sets the status
  colour to (40, 40, 0) when the noise is above \<^verbatim>\<open>MAX_NOISE\<close> and to (0, 0, 0)
  otherwise. The sketch has that branch, but the presence update before it closes the
  segment whenever the distance is invalid, so the branch is never reached. With a focus
  segment open and the colour (0, 40, 0), a timeout of the echo leaves the colour at
  (0, 40, 0), whether the room is loud or quiet.
\<close>

theorem invalid_distance_while_focusing:
  "isPresent studying \<and> \<not> waitingForUserToLeave studying \<and> \<not> inRestMode studying
   \<and> \<not> validDistance (distance (loud_timeout 1000)) \<and> MAX_NOISE < noiseVal (loud_timeout 1000)
   \<and> \<not> isPresent (presence_update (recompute studying (loud_timeout 1000)) (loud_timeout 1000))
   \<and> lastR (loop studying (loud_timeout 1000)) = 0
   \<and> lastG (loop studying (loud_timeout 1000)) = 40
   \<and> lastB (loop studying (loud_timeout 1000)) = 0
   \<and> \<not> validDistance (distance (quiet_timeout 1000))
   \<and> \<not> MAX_NOISE < noiseVal (quiet_timeout 1000)
   \<and> lastR (loop studying (quiet_timeout 1000)) = 0
   \<and> lastG (loop studying (quiet_timeout 1000)) = 40
   \<and> lastB (loop studying (quiet_timeout 1000)) = 0"
  by (simp add: studying_eq init_def loud_timeout_def quiet_timeout_def eval_defs)

subsection \<open>C10: the accumulated focus time\<close>

text \<open>
  C10 says that \<^verbatim>\<open>totalFocusTime\<close> never decreases. It is an \<^verbatim>\<open>unsigned long\<close>: with
  4294967000 ms accumulated, closing a segment of 1000 ms wraps the total around to 704.
\<close>

theorem total_focus_wrap_counterexample:
  "isPresent long_run \<and> \<not> waitingForUserToLeave long_run \<and> \<not> inRestMode long_run
   \<and> \<not> userNear (distance (away 1000))
   \<and> totalFocusTime (loop long_run (away 1000)) = 704
   \<and> totalFocusTime (loop long_run (away 1000)) < totalFocusTime long_run"
  by (simp add: long_run_def init_def away_def eval_defs)

text \<open>
  C10 as amended: \<^verbatim>\<open>totalFocusTime\<close> changes only on a pass that starts outside the
  warning state and rest mode and either sees the user away while a focus segment is
  open, where \<^verbatim>\<open>millis() - focusStartTime\<close> is added, or enters the warning state, where
  \<^verbatim>\<open>currentFocus\<close> is added; on every other pass the total is unchanged. In particular
  it is unchanged on every pass in the warning state and in rest mode, and on every pass
  in the wait after a rest (where no focus segment is open) whose clock readings of lines
  246 and 254 are less than 25 minutes apart. As long as the sum does not exceed the
  range of \<^verbatim>\<open>unsigned long\<close>, the total does not decrease.
\<close>

theorem total_focus_accumulation:
  "(totalFocusTime (loop s i) \<noteq> totalFocusTime s
      \<longrightarrow> \<not> waitingForUserToLeave s \<and> \<not> inRestMode s
          \<and> (isPresent s \<and> \<not> userNear (distance i) \<or> waitingForUserToLeave (loop s i)))
   \<and> (\<not> waitingForUserToLeave s \<and> \<not> inRestMode s \<and> isPresent s \<and> \<not> userNear (distance i)
      \<longrightarrow> totalFocusTime (loop s i) = totalFocusTime s + (millis i 250 - focusStartTime s))
   \<and> (\<not> waitingForUserToLeave s \<and> \<not> inRestMode s \<and> waitingForUserToLeave (loop s i)
      \<longrightarrow> totalFocusTime (loop s i)
          = totalFocusTime s + currentFocus (presence_update (recompute s i) i) i)
   \<and> (waitingForUserToLeave s \<or> inRestMode s
      \<longrightarrow> totalFocusTime (loop s i) = totalFocusTime s)
   \<and> (\<not> waitingForUserToLeave s \<and> \<not> inRestMode s \<and> restFinished s \<and> finished_inv s
       \<and> millis i 254 - millis i 246 < 1500000
      \<longrightarrow> totalFocusTime (loop s i) = totalFocusTime s)
   \<and> (unat (totalFocusTime s) + unat (millis i 250 - focusStartTime s) < 2 ^ 32
       \<and> unat (totalFocusTime s) + unat (currentFocus (presence_update (recompute s i) i) i)
           < 2 ^ 32
      \<longrightarrow> totalFocusTime s \<le> totalFocusTime (loop s i))"
proof -
  let ?leave = "totalFocusTime s + (millis i 250 - focusStartTime s)"
  let ?close = "totalFocusTime s + currentFocus (presence_update (recompute s i) i) i"
  have same: "totalFocusTime (loop s i) = totalFocusTime s"
    if "waitingForUserToLeave s \<or> inRestMode s"
  proof (cases "waitingForUserToLeave s")
    case True
    then show ?thesis by (simp add: warning_frame)
  next
    case False
    with that show ?thesis by (simp add: rest_step)
  qed
  have leave: "totalFocusTime (loop s i) = ?leave"
    if "\<not> waitingForUserToLeave s" "\<not> inRestMode s" "isPresent s" "\<not> userNear (distance i)"
    using that by (simp add: loop_total loop_enters_warning)
  have close: "totalFocusTime (loop s i) = ?close"
    if "\<not> waitingForUserToLeave s" "\<not> inRestMode s" "waitingForUserToLeave (loop s i)"
    using that by (simp add: loop_total)
  have other: "totalFocusTime (loop s i) = totalFocusTime s"
    if "\<not> waitingForUserToLeave s" "\<not> inRestMode s" "\<not> waitingForUserToLeave (loop s i)"
      "\<not> (isPresent s \<and> \<not> userNear (distance i))"
    using that by (auto simp add: loop_total)
  have finished: "totalFocusTime (loop s i) = totalFocusTime s"
    if "\<not> waitingForUserToLeave s" "\<not> inRestMode s" "restFinished s" "finished_inv s"
      "millis i 254 - millis i 246 < 1500000"
    using that by (rule finished_total)
  have cases: "totalFocusTime (loop s i) = totalFocusTime s
      \<or> totalFocusTime (loop s i) = ?leave \<or> totalFocusTime (loop s i) = ?close"
    using same leave close other by blast
  have mono: "totalFocusTime s \<le> totalFocusTime (loop s i)"
    if a: "unat (totalFocusTime s) + unat (millis i 250 - focusStartTime s) < 2 ^ 32"
      and b: "unat (totalFocusTime s)
                + unat (currentFocus (presence_update (recompute s i) i) i) < 2 ^ 32"
  proof -
    from a have "totalFocusTime s \<le> ?leave" by (simp add: no_olen_add_nat)
    moreover from b have "totalFocusTime s \<le> ?close" by (simp add: no_olen_add_nat)
    ultimately show ?thesis using cases by auto
  qed
  from same leave close other finished mono show ?thesis by blast
qed

text \<open>
  The user leaves 5 s into a segment and 5000 ms are added; the warning after 45 minutes
  adds 2700000 ms; a pass in the warning state adds nothing; after the rest, neither the
  pass that sees the user come back nor a pass that sees the user still away adds
  anything.
\<close>

theorem total_focus_accumulation_witness:
  "totalFocusTime (loop focusing (away 5000)) \<noteq> totalFocusTime focusing
   \<and> \<not> waitingForUserToLeave focusing \<and> \<not> inRestMode focusing \<and> isPresent focusing
   \<and> \<not> userNear (distance (away 5000))
   \<and> totalFocusTime (loop focusing (away 5000)) = 5000
   \<and> waitingForUserToLeave (loop focusing (seated 2700000))
   \<and> totalFocusTime (loop focusing (seated 2700000)) = 2700000
   \<and> waitingForUserToLeave warned
   \<and> totalFocusTime (loop warned (away 2702000)) = totalFocusTime warned
   \<and> \<not> waitingForUserToLeave rested \<and> \<not> inRestMode rested \<and> restFinished rested
   \<and> finished_inv rested
   \<and> millis (seated 3603000) 254 - millis (seated 3603000) 246 < 1500000
   \<and> totalFocusTime (loop rested (seated 3603000)) = totalFocusTime rested
   \<and> totalFocusTime (loop rested (away 3603000)) = totalFocusTime rested
   \<and> unat (totalFocusTime focusing) + unat (millis (away 5000) 250 - focusStartTime focusing)
       < 2 ^ 32
   \<and> unat (totalFocusTime focusing)
       + unat (currentFocus (presence_update (recompute focusing (away 5000)) (away 5000))
                 (away 5000)) < 2 ^ 32
   \<and> totalFocusTime focusing \<le> totalFocusTime (loop focusing (away 5000))"
  using total_focus_accumulation [of focusing "away 5000"]
    total_focus_accumulation [of focusing "seated 2700000"]
    total_focus_accumulation [of warned "away 2702000"]
    total_focus_accumulation [of rested "seated 3603000"]
    total_focus_accumulation [of rested "away 3603000"]
  by (simp add: focusing_eq warned_eq rested_eq finished_inv_def init_def away_def seated_def
      eval_defs)

end
